theory Spec2Isabelle
  imports Complex_Main
begin

section \<open>JavaScript values\<close>

text \<open>
  The payloads the client and the relay handle are deserialized JSON, typed \<open>any\<close> or
  \<open>Record<string, any>\<close> in the source. A value is one of the JavaScript runtime
  shapes. Numbers are the finite numbers (a rational covers every finite double); \<open>NaN\<close>
  and the infinities, which no JSON text written with in-range literals denotes, are not
  modelled. An object is the list of its own properties, each key bound once (were a
  key listed twice, its first binding is the property).
\<close>

datatype jsval =
    JUndefined
  | JNull
  | JBool bool
  | JNumber rat
  | JString string
  | JArray "jsval list"
  | JObject "(string \<times> jsval) list"

datatype js_error = TypeError

text \<open>\<open>!v\<close> is \<open>\<not> truthy v\<close>.\<close>

fun truthy :: "jsval \<Rightarrow> bool" where
  "truthy JUndefined = False"
| "truthy JNull = False"
| "truthy (JBool b) = b"
| "truthy (JNumber n) = (n \<noteq> 0)"
| "truthy (JString s) = (s \<noteq> [])"
| "truthy (JArray xs) = True"
| "truthy (JObject kvs) = True"

text \<open>
  \<open>v?.k\<close>: the optional-chaining read. It is \<open>undefined\<close> on \<open>null\<close> and \<open>undefined\<close>, and
  on a primitive or an array for every key this program reads (\<open>type\<close>, \<open>state\<close>,
  \<open>message\<close>, \<open>detail\<close>, \<open>error\<close>, \<open>domain\<close>, \<open>room\<close>, \<open>token\<close>, \<open>directive\<close> and the
  fields of MandyState), none of which is a property of a string, number, boolean or
  array.
\<close>

fun js_member :: "jsval \<Rightarrow> string \<Rightarrow> jsval" where
  "js_member (JObject kvs) k = (case map_of kvs k of Some v \<Rightarrow> v | None \<Rightarrow> JUndefined)"
| "js_member v k = JUndefined"

text \<open>\<open>v.k\<close>: the plain read raises a TypeError on \<open>null\<close> and \<open>undefined\<close>.\<close>

fun js_get :: "jsval \<Rightarrow> string \<Rightarrow> js_error + jsval" where
  "js_get JUndefined k = Inl TypeError"
| "js_get JNull k = Inl TypeError"
| "js_get v k = Inr (js_member v k)"

text \<open>\<open>a ?? b\<close> and \<open>a || b\<close>.\<close>

fun nullish_or :: "jsval \<Rightarrow> jsval \<Rightarrow> jsval" where
  "nullish_or JUndefined d = d"
| "nullish_or JNull d = d"
| "nullish_or v d = v"

definition or_else :: "jsval \<Rightarrow> jsval \<Rightarrow> jsval" where
  "or_else v d = (if truthy v then v else d)"

text \<open>Sequencing of a computation that may raise: the first exception aborts the rest.\<close>

definition try_bind :: "'e + 'a \<Rightarrow> ('a \<Rightarrow> 'e + 'b) \<Rightarrow> 'e + 'b" where
  "try_bind r f = (case r of Inl e \<Rightarrow> Inl e | Inr x \<Rightarrow> f x)"

section \<open>MandyState (src/unnamed/part_004, the module types/mandy)\<close>

text \<open>
  \<open>MandyMode\<close> and \<open>MandyStatus\<close> are unions of string literals: at run time a mode or a
  status is a string, and only \<open>normalizeMandyState\<close> checks it against the enumeration.
  A nullable string field is \<open>None\<close> when it is \<open>null\<close>.
\<close>

type_synonym MandyMode = string
type_synonym MandyStatus = string

record MandyState =
  version :: rat
  mode :: MandyMode
  muted :: bool
  directive :: string
  lockedBy :: "string option"
  updatedBy :: "string option"
  updatedAt :: "string option"
  status :: MandyStatus
  pendingReason :: "string option"

definition DEFAULT_MANDY_STATE :: MandyState where
  "DEFAULT_MANDY_STATE =
     \<lparr> version = 0, mode = ''silent'', muted = True, directive = '''',
       lockedBy = None, updatedBy = None, updatedAt = None,
       status = ''disconnected'', pendingReason = None \<rparr>"

definition VALID_MANDY_MODES :: "MandyMode list" where
  "VALID_MANDY_MODES = [''silent'', ''prompted'', ''active'']"

definition VALID_MANDY_STATUS :: "MandyStatus list" where
  "VALID_MANDY_STATUS = [''disconnected'', ''connecting'', ''online'', ''degraded'', ''error'']"

section \<open>normalizeMandyState (src/pages/[domain]/[room].tsx)\<close>

text \<open>
  \<open>xs.includes(v) ? v : d\<close> for a list of strings: \<open>includes\<close> compares with SameValueZero,
  so only a string equal to a member is kept.
\<close>

definition member_or :: "string list \<Rightarrow> jsval \<Rightarrow> string \<Rightarrow> string" where
  "member_or xs v d = (case v of JString s \<Rightarrow> if s \<in> set xs then s else d | _ \<Rightarrow> d)"

text \<open>\<open>typeof v === "number" ? v : d\<close>, and the same for booleans and strings.\<close>

definition number_or :: "jsval \<Rightarrow> rat \<Rightarrow> rat" where
  "number_or v d = (case v of JNumber n \<Rightarrow> n | _ \<Rightarrow> d)"

definition boolean_or :: "jsval \<Rightarrow> bool \<Rightarrow> bool" where
  "boolean_or v d = (case v of JBool b \<Rightarrow> b | _ \<Rightarrow> d)"

definition string_or :: "jsval \<Rightarrow> string \<Rightarrow> string" where
  "string_or v d = (case v of JString s \<Rightarrow> s | _ \<Rightarrow> d)"

definition nullable_string_or :: "jsval \<Rightarrow> string option \<Rightarrow> string option" where
  "nullable_string_or v d = (case v of JString s \<Rightarrow> Some s | _ \<Rightarrow> d)"

text \<open>
  The function returns the default state on a falsy argument and otherwise reads the
  eight fields of \<open>raw\<close> with plain property reads, in the order of the source (a field
  the source reads twice is read once here: a data property yields the same value).
\<close>

definition normalizeMandyState :: "jsval \<Rightarrow> js_error + MandyState" where
  "normalizeMandyState raw =
     (if \<not> truthy raw then Inr DEFAULT_MANDY_STATE
      else
        try_bind (js_get raw ''mode'') (\<lambda>raw_mode.
        try_bind (js_get raw ''status'') (\<lambda>raw_status.
        try_bind (js_get raw ''version'') (\<lambda>raw_version.
        try_bind (js_get raw ''muted'') (\<lambda>raw_muted.
        try_bind (js_get raw ''directive'') (\<lambda>raw_directive.
        try_bind (js_get raw ''lockedBy'') (\<lambda>raw_lockedBy.
        try_bind (js_get raw ''updatedBy'') (\<lambda>raw_updatedBy.
        try_bind (js_get raw ''updatedAt'') (\<lambda>raw_updatedAt.
          Inr (DEFAULT_MANDY_STATE
                \<lparr> version := number_or raw_version 0,
                  mode := member_or VALID_MANDY_MODES raw_mode ''silent'',
                  status := member_or VALID_MANDY_STATUS raw_status ''disconnected'',
                  muted := boolean_or raw_muted (muted DEFAULT_MANDY_STATE),
                  directive := string_or raw_directive (directive DEFAULT_MANDY_STATE),
                  lockedBy := nullable_string_or raw_lockedBy (lockedBy DEFAULT_MANDY_STATE),
                  updatedBy := nullable_string_or raw_updatedBy (updatedBy DEFAULT_MANDY_STATE),
                  updatedAt := nullable_string_or raw_updatedAt (updatedAt DEFAULT_MANDY_STATE),
                  pendingReason := None \<rparr>))))))))))"

text \<open>
  A MandyState held by the client is itself a JavaScript object, and this is the object:
  \<open>normalizeMandyState\<close> applied to a state it returned receives this value.
\<close>

definition js_of_nullable :: "string option \<Rightarrow> jsval" where
  "js_of_nullable x = (case x of None \<Rightarrow> JNull | Some s \<Rightarrow> JString s)"

definition js_of_MandyState :: "MandyState \<Rightarrow> jsval" where
  "js_of_MandyState s =
     JObject [(''version'', JNumber (version s)), (''mode'', JString (mode s)),
              (''muted'', JBool (muted s)), (''directive'', JString (directive s)),
              (''lockedBy'', js_of_nullable (lockedBy s)),
              (''updatedBy'', js_of_nullable (updatedBy s)),
              (''updatedAt'', js_of_nullable (updatedAt s)),
              (''status'', JString (status s)),
              (''pendingReason'', js_of_nullable (pendingReason s))]"

text \<open>
  The contract of section 4.1 of the specification, field by field: a field that is
  present, well-typed and (mode, status) in its enumeration is kept; any other is the
  default's; \<open>pendingReason\<close> is always empty.
\<close>

definition spec_normalize :: "jsval \<Rightarrow> MandyState" where
  "spec_normalize raw =
     \<lparr> version = number_or (js_member raw ''version'') (version DEFAULT_MANDY_STATE),
       mode = member_or VALID_MANDY_MODES (js_member raw ''mode'') (mode DEFAULT_MANDY_STATE),
       muted = boolean_or (js_member raw ''muted'') (muted DEFAULT_MANDY_STATE),
       directive = string_or (js_member raw ''directive'') (directive DEFAULT_MANDY_STATE),
       lockedBy = nullable_string_or (js_member raw ''lockedBy'') (lockedBy DEFAULT_MANDY_STATE),
       updatedBy = nullable_string_or (js_member raw ''updatedBy'') (updatedBy DEFAULT_MANDY_STATE),
       updatedAt = nullable_string_or (js_member raw ''updatedAt'') (updatedAt DEFAULT_MANDY_STATE),
       status = member_or VALID_MANDY_STATUS (js_member raw ''status'') (status DEFAULT_MANDY_STATE),
       pendingReason = None \<rparr>"

text \<open>The data model's constraint on a version: a non-negative integer.\<close>

definition is_nonneg_integer :: "rat \<Rightarrow> bool" where
  "is_nonneg_integer q = (0 \<le> q \<and> of_int \<lfloor>q\<rfloor> = q)"

section \<open>The client's Mandy state (src/pages/[domain]/[room].tsx)\<close>

text \<open>
  The two pieces of the page's React state that Mandy's protocol touches. \<open>mandyError\<close> is declared
  \<open>string | null\<close>; the error broadcast stores whatever value the message carries, so the
  field holds a JavaScript value (\<open>JNull\<close> when no error is shown).
\<close>

record client =
  mandyState :: MandyState
  mandyError :: jsval

definition initial_client :: client where
  "initial_client = \<lparr> mandyState = DEFAULT_MANDY_STATE, mandyError = JNull \<rparr>"

subsection \<open>The app-message handler\<close>

text \<open>
  The updater passed to \<open>setMandyState\<close> in the \<open>mandy/state\<close> branch. \<open>prev\<close> is always a
  MandyState, so \<open>prev?.version ?? 0\<close> is its version.
\<close>

definition mandy_state_updater :: "jsval \<Rightarrow> MandyState \<Rightarrow> js_error + MandyState" where
  "mandy_state_updater incomingState prev =
     try_bind (normalizeMandyState incomingState) (\<lambda>normalized.
       Inr (if version normalized \<ge> version prev then normalized else prev))"

text \<open>
  The handler, on the \<open>data\<close> of a message. Its third branch (a final transcription
  message) touches neither \<open>mandyState\<close> nor \<open>mandyError\<close> and is not modelled further.
\<close>

definition on_app_message :: "jsval \<Rightarrow> client \<Rightarrow> js_error + client" where
  "on_app_message data c =
     (if js_member data ''type'' = JString ''mandy/state'' then
        try_bind (js_get data ''state'') (\<lambda>incomingState.
          if truthy incomingState then
            try_bind (mandy_state_updater incomingState (mandyState c)) (\<lambda>adopted.
              Inr (c\<lparr>mandyState := adopted\<rparr>))
          else Inr c)
      else if js_member data ''type'' = JString ''mandy/error'' then
        try_bind (js_get data ''message'') (\<lambda>message.
          Inr (c\<lparr>mandyError := nullish_or message (JString ''Mandy encountered an error.'')\<rparr>))
      else Inr c)"

text \<open>The broadcast envelope of a state, and the delivery of a sequence of messages.\<close>

definition state_message :: "jsval \<Rightarrow> jsval" where
  "state_message candidate = JObject [(''type'', JString ''mandy/state''), (''state'', candidate)]"

fun deliver :: "jsval list \<Rightarrow> client \<Rightarrow> js_error + client" where
  "deliver [] c = Inr c"
| "deliver (d # ds) c = try_bind (on_app_message d c) (deliver ds)"

text \<open>The version a candidate bears: its \<open>version\<close> field, 0 when it states none.\<close>

definition candidate_version :: "jsval \<Rightarrow> rat" where
  "candidate_version candidate = number_or (js_member candidate ''version'') 0"

subsection \<open>sendMandyControl\<close>

text \<open>
  What \<open>fetch\<close> and \<open>response.json()\<close> can do: reject with a thrown value, or deliver a
  status and a body that parses as JSON or does not.
\<close>

datatype json_result = JsonRejected jsval | Json jsval

datatype fetch_result = Rejected jsval | Response nat json_result

definition response_ok :: "nat \<Rightarrow> bool" where
  "response_ok st = (200 \<le> st \<and> st \<le> 299)"

text \<open>
  \<open>new Error(v)\<close>: an object whose \<open>message\<close> is the string of \<open>v\<close>. The string of a
  string is itself; the conversion of any other value is the parameter \<open>str\<close>.
\<close>

definition js_Error :: "(jsval \<Rightarrow> string) \<Rightarrow> jsval \<Rightarrow> jsval" where
  "js_Error str v = JObject [(''message'', JString (case v of JString s \<Rightarrow> s | _ \<Rightarrow> str v))]"

text \<open>The command a panel handler passes to \<open>onSendControl\<close> (src/unnamed/part_004).\<close>

record MandyControlPayload =
  action :: string
  payload_mode :: "MandyMode option"
  payload_directive :: "string option"
  reason :: "string option"
  requestedBy :: "string option"
  payload_version :: "rat option"

text \<open>
  The function awaits the network between its first state update and the rest, and its
  updates are functions of the state current when they run. It is modelled in the two
  parts the await separates, so that other events may come between them.
\<close>

definition sendMandyControl_begin :: "MandyControlPayload \<Rightarrow> client \<Rightarrow> client" where
  "sendMandyControl_begin payload c =
     c\<lparr>mandyState := (mandyState c)\<lparr>pendingReason := Some (action payload)\<rparr>\<rparr>"

text \<open>
  The \<open>try\<close> block after the fetch: \<open>Inl\<close> is the value it throws. Were
  \<open>normalizeMandyState\<close> to raise, the block would throw the engine's TypeError, whose
  message is not modelled (the function never raises: \<open>normalizeMandyState_spec\<close>).
\<close>

definition sendMandyControl_try :: "(jsval \<Rightarrow> string) \<Rightarrow> fetch_result \<Rightarrow> client \<Rightarrow> jsval + client" where
  "sendMandyControl_try str r c =
     (case r of
        Rejected err \<Rightarrow> Inl err
      | Response st body \<Rightarrow>
          (case body of
             JsonRejected err \<Rightarrow> Inl err
           | Json payloadJson \<Rightarrow>
               if \<not> response_ok st then
                 Inl (js_Error str (or_else (js_member payloadJson ''error'')
                                      (JString ''Failed to update Mandy's state.'')))
               else if truthy (js_member payloadJson ''state'') then
                 (case normalizeMandyState (js_member payloadJson ''state'') of
                    Inl e \<Rightarrow> Inl (js_Error str (JString ''TypeError''))
                  | Inr normalized \<Rightarrow> Inr (c\<lparr>mandyState := normalized, mandyError := JNull\<rparr>))
               else Inr (c\<lparr>mandyState := (mandyState c)\<lparr>pendingReason := None\<rparr>\<rparr>)))"

text \<open>The \<open>try\<close> block with its \<open>catch\<close>.\<close>

definition sendMandyControl_settle :: "(jsval \<Rightarrow> string) \<Rightarrow> fetch_result \<Rightarrow> client \<Rightarrow> client" where
  "sendMandyControl_settle str r c =
     (case sendMandyControl_try str r c of
        Inr c' \<Rightarrow> c'
      | Inl err \<Rightarrow>
          c\<lparr>mandyError := or_else (js_member err ''message'') (JString ''Failed to update Mandy.''),
            mandyState := (mandyState c)\<lparr>pendingReason := None\<rparr>\<rparr>)"

text \<open>The whole function when no other event comes between its two parts.\<close>

definition sendMandyControl ::
  "string \<Rightarrow> string \<Rightarrow> (jsval \<Rightarrow> string) \<Rightarrow> MandyControlPayload \<Rightarrow> fetch_result \<Rightarrow> client \<Rightarrow> client" where
  "sendMandyControl domainSlug roomSlug str payload r c =
     (if domainSlug = [] \<or> roomSlug = [] then
        c\<lparr>mandyError := JString ''Missing room information for Mandy control.''\<rparr>
      else sendMandyControl_settle str r (sendMandyControl_begin payload c))"

text \<open>
  The page passes \<open>sendMandyControl\<close> to the panel as \<open>onSendControl\<close>. The commands of
  one event of the panel, sent in order; \<open>relay\<close> is the answer each command gets.
\<close>

definition onSendControl ::
  "string \<Rightarrow> string \<Rightarrow> (jsval \<Rightarrow> string) \<Rightarrow> (MandyControlPayload \<Rightarrow> fetch_result)
     \<Rightarrow> MandyControlPayload list \<Rightarrow> client \<Rightarrow> client" where
  "onSendControl domainSlug roomSlug str relay payloads c =
     foldl (\<lambda>c' payload. sendMandyControl domainSlug roomSlug str payload (relay payload) c')
       c payloads"



section \<open>The panel's commands (src/unnamed/part_000, the component MandyPanel)\<close>

text \<open>
  \<open>String.prototype.trim\<close> removes the white space and line terminator code units at
  both ends. A string is a list of 8-bit code units here; of the code points \<open>trim\<close>
  removes, those below 256 are TAB, LF, VT, FF, CR, SPACE and NBSP.
\<close>

definition is_whitespace :: "char \<Rightarrow> bool" where
  "is_whitespace ch = (of_char ch \<in> set [9, 10, 11, 12, 13, 32, 160 :: nat])"

definition trim :: "string \<Rightarrow> string" where
  "trim s = rev (dropWhile is_whitespace (rev (dropWhile is_whitespace s)))"

text \<open>
  Each handler returns the commands it passes to \<open>onSendControl\<close>, in order (none or
  one). \<open>handleDirectiveSave\<close> also returns the new value of the draft.
\<close>

definition handleDirectiveSave ::
  "string \<Rightarrow> MandyState \<Rightarrow> string \<Rightarrow> MandyControlPayload list \<times> string" where
  "handleDirectiveSave directiveDraft st localUserName =
     (let trimmed = trim directiveDraft in
      if trimmed = [] \<or> trimmed = directive st then ([], directiveDraft)
      else ([\<lparr> action = ''mandy:update_directive'', payload_mode = None,
                payload_directive = Some trimmed, reason = None,
                requestedBy = Some localUserName, payload_version = Some (version st) \<rparr>],
            trimmed))"

definition handleModeChange :: "MandyMode \<Rightarrow> MandyState \<Rightarrow> string \<Rightarrow> MandyControlPayload list" where
  "handleModeChange new_mode st localUserName =
     (if new_mode = mode st then []
      else [\<lparr> action = ''mandy:set_mode'', payload_mode = Some new_mode,
               payload_directive = None, reason = None,
               requestedBy = Some localUserName, payload_version = Some (version st) \<rparr>])"

definition handleToggleMute :: "MandyState \<Rightarrow> string \<Rightarrow> MandyControlPayload list" where
  "handleToggleMute st localUserName =
     [\<lparr> action = (if muted st then ''mandy:unmute'' else ''mandy:mute''), payload_mode = None,
         payload_directive = None, reason = None,
         requestedBy = Some localUserName, payload_version = Some (version st) \<rparr>]"

text \<open>\<open>state.lockedBy\<close> as a condition: a string that is not empty.\<close>

definition is_locked :: "MandyState \<Rightarrow> bool" where
  "is_locked st = (case lockedBy st of None \<Rightarrow> False | Some who \<Rightarrow> who \<noteq> [])"

definition handleLockToggle :: "bool \<Rightarrow> MandyState \<Rightarrow> string \<Rightarrow> MandyControlPayload list" where
  "handleLockToggle isOwner st localUserName =
     (if \<not> isOwner then []
      else [\<lparr> action = (if is_locked st then ''mandy:unlock_mode'' else ''mandy:lock_mode''),
               payload_mode = None, payload_directive = None,
               reason = Some (if is_locked st then ''Unlocking Mandy controls''
                              else ''Owner lock enabled''),
               requestedBy = Some localUserName, payload_version = Some (version st) \<rparr>])"

text \<open>\<open>requestMandyStop\<close> of the page, which the panel's dismiss button calls.\<close>

definition requestMandyStop :: "MandyState \<Rightarrow> string \<Rightarrow> MandyControlPayload list" where
  "requestMandyStop st localUserName =
     [\<lparr> action = ''mandy:stop'', payload_mode = None, payload_directive = None, reason = None,
         requestedBy = Some localUserName, payload_version = Some (version st) \<rparr>]"


text \<open>
  The events of the panel that send a control command, and the commands each sends: the
  directive editor losing focus or its button (\<open>DirectiveSave\<close>, with the draft), the
  mode selector, the mute button, the lock button and the dismiss button.
\<close>

datatype panel_event =
    DirectiveSave string
  | ModeChange MandyMode
  | ToggleMute
  | LockToggle
  | RequestStop

fun panel_commands :: "panel_event \<Rightarrow> bool \<Rightarrow> MandyState \<Rightarrow> string \<Rightarrow> MandyControlPayload list" where
  "panel_commands (DirectiveSave directiveDraft) isOwner st localUserName =
     fst (handleDirectiveSave directiveDraft st localUserName)"
| "panel_commands (ModeChange new_mode) isOwner st localUserName =
     handleModeChange new_mode st localUserName"
| "panel_commands ToggleMute isOwner st localUserName = handleToggleMute st localUserName"
| "panel_commands LockToggle isOwner st localUserName = handleLockToggle isOwner st localUserName"
| "panel_commands RequestStop isOwner st localUserName = requestMandyStop st localUserName"

section \<open>The control relay (src/pages/api/mandy/start.ts, src/unnamed/part_002, src/unnamed/part_003)\<close>

text \<open>
  A request as a handler reads it: the method, the parsed body (\<open>undefined\<close> when there
  is none) and the query, whose values are a string or, for a repeated key, an array.
\<close>

datatype query_value = QString string | QArray "string list"

record api_request =
  req_method :: string
  req_body :: jsval
  req_query :: "(string \<times> query_value) list"

text \<open>
  A request the handler passes to \<open>fetch\<close>. The body is the value whose JSON text is
  sent.
\<close>

record upstream_request =
  up_method :: string
  up_url :: string
  up_body :: "jsval option"

text \<open>
  What a handler does: the status and JSON body it answers with, the \<open>Allow\<close> header if
  it sets one, and the requests it passed to \<open>fetch\<close>.
\<close>

record relay_result =
  res_status :: nat
  res_body :: jsval
  res_allow :: "string option"
  forwarded :: "upstream_request list"

definition reply :: "nat \<Rightarrow> jsval \<Rightarrow> relay_result" where
  "reply st b = \<lparr> res_status = st, res_body = b, res_allow = None, forwarded = [] \<rparr>"

definition error_body :: "jsval \<Rightarrow> jsval" where
  "error_body message = JObject [(''error'', message)]"

definition not_configured :: relay_result where
  "not_configured =
     reply 500 (error_body (JString ''MANDY_SERVICE_URL is not configured on the server.''))"

text \<open>\<open>!serviceUrl\<close>, for the environment variable: unset or empty.\<close>

definition service_url_missing :: "string option \<Rightarrow> bool" where
  "service_url_missing serviceUrl = (case serviceUrl of None \<Rightarrow> True | Some url \<Rightarrow> url = [])"

text \<open>\<open>url.replace(/\/$/, "")\<close>: one trailing slash is removed.\<close>

definition strip_trailing_slash :: "string \<Rightarrow> string" where
  "strip_trailing_slash url = (if url \<noteq> [] \<and> last url = CHR ''/'' then butlast url else url)"

text \<open>\<open>JSON.stringify\<close> of an object literal leaves out the members that are undefined.\<close>

definition json_object :: "(string \<times> jsval) list \<Rightarrow> jsval" where
  "json_object kvs = JObject (filter (\<lambda>kv. snd kv \<noteq> JUndefined) kvs)"

text \<open>
  The \<open>try\<close> block and its \<open>catch\<close>, which the three handlers repeat with their own
  fallback text: the request is passed to \<open>fetch\<close>, the body is parsed, and the answer
  is built from the status and the parsed body. \<open>upstream\<close> is the backend as the
  handler observes it.
\<close>

definition relay_upstream ::
  "string \<Rightarrow> (upstream_request \<Rightarrow> fetch_result) \<Rightarrow> upstream_request \<Rightarrow> relay_result" where
  "relay_upstream fallback upstream request =
     (let unexpected = (\<lambda>err.
            reply 500 (error_body (or_else (js_member err ''message'')
                                     (JString ''Unexpected error reaching Mandy service.''))));
          answer =
            (case upstream request of
               Rejected err \<Rightarrow> unexpected err
             | Response st body \<Rightarrow>
                 (case body of
                    JsonRejected err \<Rightarrow> unexpected err
                  | Json payload \<Rightarrow>
                      if \<not> response_ok st then
                        reply st (error_body
                          (case js_member payload ''detail'' of
                             JString detail \<Rightarrow> JString detail
                           | _ \<Rightarrow> or_else (js_member payload ''error'') (JString fallback)))
                      else reply 200 payload))
      in answer\<lparr>forwarded := [request]\<rparr>)"

definition method_not_allowed :: "string \<Rightarrow> relay_result" where
  "method_not_allowed allowed =
     (reply 405 (error_body (JString ''Method not allowed'')))\<lparr>res_allow := Some allowed\<rparr>"

text \<open>
  The start endpoint (start.ts): the room address is checked before the service address.
\<close>

definition handler_start ::
  "string option \<Rightarrow> (upstream_request \<Rightarrow> fetch_result) \<Rightarrow> api_request \<Rightarrow> relay_result" where
  "handler_start serviceUrl upstream req =
     (if req_method req \<noteq> ''POST'' then method_not_allowed ''POST''
      else
        let body = nullish_or (req_body req) (JObject []);
            domain = js_member body ''domain'';
            room = js_member body ''room'';
            token = js_member body ''token'';
            directive = js_member body ''directive''
        in
          if \<not> truthy domain \<or> \<not> truthy room then
            reply 400 (error_body (JString ''Both domain and room are required to invite Mandy.''))
          else
            (case serviceUrl of
               None \<Rightarrow> not_configured
             | Some url \<Rightarrow>
                 if url = [] then not_configured
                 else relay_upstream ''Failed to start Mandy.'' upstream
                        \<lparr> up_method = ''POST'',
                          up_url = strip_trailing_slash url @ ''/api/start'',
                          up_body = Some (json_object [(''domain'', domain), (''room'', room),
                                                       (''token'', token), (''directive'', directive)]) \<rparr>))"

text \<open>
  The rest of the body in \<open>const { domain, room, ...rest } = req.body ?? {}\<close>: the members
  other than \<open>domain\<close> and \<open>room\<close>. It is used only after \<open>domain\<close> and \<open>room\<close> were found
  truthy, which they are in an object only.
\<close>

fun rest_of :: "jsval \<Rightarrow> (string \<times> jsval) list" where
  "rest_of (JObject kvs) = filter (\<lambda>kv. fst kv \<noteq> ''domain'' \<and> fst kv \<noteq> ''room'') kvs"
| "rest_of v = []"

text \<open>
  The control endpoint (part_002): the service address is checked before the room
  address.
\<close>

definition handler_control ::
  "string option \<Rightarrow> (upstream_request \<Rightarrow> fetch_result) \<Rightarrow> api_request \<Rightarrow> relay_result" where
  "handler_control serviceUrl upstream req =
     (if req_method req \<noteq> ''POST'' then method_not_allowed ''POST''
      else
        (case serviceUrl of
           None \<Rightarrow> not_configured
         | Some url \<Rightarrow>
             if url = [] then not_configured
             else
               let body = nullish_or (req_body req) (JObject []);
                   domain = js_member body ''domain'';
                   room = js_member body ''room''
               in
                 if \<not> truthy domain \<or> \<not> truthy room then
                   reply 400 (error_body
                     (JString ''Both domain and room are required to control Mandy.''))
                 else relay_upstream ''Failed to update Mandy.'' upstream
                        \<lparr> up_method = ''POST'',
                          up_url = strip_trailing_slash url @ ''/api/control'',
                          up_body = Some (json_object
                            ((''domain'', domain) # (''room'', room) # rest_of body)) \<rparr>))"

text \<open>
  The state endpoint (part_003): the room address comes from the query, and each part
  must be a single string. \<open>encodeURIComponent\<close> is a parameter.
\<close>

definition handler_state ::
  "(string \<Rightarrow> string) \<Rightarrow> string option \<Rightarrow> (upstream_request \<Rightarrow> fetch_result) \<Rightarrow> api_request
     \<Rightarrow> relay_result" where
  "handler_state encodeURIComponent serviceUrl upstream req =
     (if req_method req \<noteq> ''GET'' then method_not_allowed ''GET''
      else
        (case serviceUrl of
           None \<Rightarrow> not_configured
         | Some url \<Rightarrow>
             if url = [] then not_configured
             else
               (case (map_of (req_query req) ''domain'', map_of (req_query req) ''room'') of
                  (Some (QString domain), Some (QString room)) \<Rightarrow>
                    relay_upstream ''Failed to fetch Mandy state.'' upstream
                      \<lparr> up_method = ''GET'',
                        up_url = strip_trailing_slash url @ ''/api/state?domain=''
                                   @ encodeURIComponent domain @ ''&room=''
                                   @ encodeURIComponent room,
                        up_body = None \<rparr>
                | _ \<Rightarrow>
                    reply 400 (error_body
                      (JString ''Both domain and room must be provided as query parameters.'')))))"

text \<open>The room address is missing from a body, and from a query.\<close>

definition address_missing :: "jsval \<Rightarrow> bool" where
  "address_missing body =
     (\<not> truthy (js_member body ''domain'') \<or> \<not> truthy (js_member body ''room''))"

fun single_string :: "query_value option \<Rightarrow> bool" where
  "single_string (Some (QString s)) = True"
| "single_string v = False"

definition query_address_missing :: "(string \<times> query_value) list \<Rightarrow> bool" where
  "query_address_missing q =
     (\<not> single_string (map_of q ''domain'') \<or> \<not> single_string (map_of q ''room''))"

text \<open>
  The answer the relay owes for a backend response with a JSON body: on a success
  status, 200 with the body itself; on any other status, that status with the backend's
  message, which is \<open>detail\<close> when a string, else \<open>error\<close> when truthy, else the
  endpoint's fixed text.
\<close>

definition relays_answer :: "string \<Rightarrow> nat \<Rightarrow> jsval \<Rightarrow> relay_result \<Rightarrow> bool" where
  "relays_answer fallback st payload result =
     (if response_ok st then res_status result = 200 \<and> res_body result = payload
      else res_status result = st
         \<and> res_body result =
             JObject [(''error'',
               (case js_member payload ''detail'' of
                  JString detail \<Rightarrow> JString detail
                | _ \<Rightarrow> if truthy (js_member payload ''error'') then js_member payload ''error''
                       else JString fallback))])"

text \<open>The answer when the fetch rejects or the body is not JSON: 500 with the message
  of the thrown value, or a fixed text.\<close>

definition relays_failure :: "jsval \<Rightarrow> relay_result \<Rightarrow> bool" where
  "relays_failure err result =
     (res_status result = 500
      \<and> res_body result =
          JObject [(''error'',
            (if truthy (js_member err ''message'') then js_member err ''message''
             else JString ''Unexpected error reaching Mandy service.''))])"

text \<open>
  Two backends for the examples: one that cannot be reached (every fetch rejects), and
  one behind a gateway that answers 503 with a page that is not JSON.
\<close>

definition html_503 :: "upstream_request \<Rightarrow> fetch_result" where
  "html_503 request =
     Response 503 (JsonRejected (JObject [(''message'', JString ''Unexpected token < in JSON'')]))"

definition unreachable :: "upstream_request \<Rightarrow> fetch_result" where
  "unreachable request = Rejected (JObject [(''message'', JString ''fetch failed'')])"

section \<open>The authority's handling of a directive update\<close>

text \<open>
  Modelled from the spec: the authority's effect of \<open>mandy:update_directive\<close>. The
  backend service (mandy-bot) that holds the authoritative state is not among the
  sources; only the client that sends the command and the relay that forwards it are.
  Section 4.2 of the specification: the command "replaces \<open>directive\<close>; records
  \<open>updatedBy\<close>. No-op if identical to current value (a no-op command must not bump
  \<open>version\<close>)", and "every accepted, state-changing command increments \<open>version\<close> by at
  least 1 and stamps \<open>updatedBy\<close>/\<open>updatedAt\<close>". The increment is a parameter, raised
  to 1 when it is less; \<open>now\<close> is the time stamp.
\<close>

definition authority_update_directive ::
  "rat \<Rightarrow> string \<Rightarrow> string \<Rightarrow> string \<Rightarrow> MandyState \<Rightarrow> MandyState" where
  "authority_update_directive increment now new_directive requester st =
     (if new_directive = directive st then st
      else st\<lparr> directive := new_directive, updatedBy := Some requester, updatedAt := Some now,
              version := version st + max 1 increment \<rparr>)"

text \<open>
  Modelled from the spec: the body of the authority's answer to a control command.
  Section 6: \<open>POST control\<close> answers \<open>{state}\<close>, the authority's state after the command.
\<close>

definition authority_answer :: "MandyState \<Rightarrow> fetch_result" where
  "authority_answer st = Response 200 (Json (JObject [(''state'', js_of_MandyState st)]))"

section \<open>Properties of normalizeMandyState\<close>

lemma js_get_truthy: "truthy raw \<Longrightarrow> js_get raw k = Inr (js_member raw k)"
  by (cases raw) simp_all

lemma js_member_falsy: "\<not> truthy raw \<Longrightarrow> js_member raw k = JUndefined"
  by (cases raw) simp_all

lemma normalizeMandyState_spec: "normalizeMandyState raw = Inr (spec_normalize raw)"
proof (cases "truthy raw")
  case True
  then show ?thesis
    by (simp add: normalizeMandyState_def js_get_truthy try_bind_def spec_normalize_def
        DEFAULT_MANDY_STATE_def)
next
  case False
  then show ?thesis
    by (simp add: normalizeMandyState_def js_member_falsy spec_normalize_def
        DEFAULT_MANDY_STATE_def number_or_def member_or_def boolean_or_def string_or_def
        nullable_string_or_def)
qed

lemma member_or_in: "d \<in> set xs \<Longrightarrow> member_or xs v d \<in> set xs"
  by (simp add: member_or_def split: jsval.splits)

lemma spec_normalize_mode: "mode (spec_normalize raw) \<in> set VALID_MANDY_MODES"
proof -
  have "''silent'' \<in> set VALID_MANDY_MODES"
    by (simp add: VALID_MANDY_MODES_def)
  then have "member_or VALID_MANDY_MODES (js_member raw ''mode'') ''silent''
               \<in> set VALID_MANDY_MODES"
    by (rule member_or_in)
  then show ?thesis
    by (simp add: spec_normalize_def DEFAULT_MANDY_STATE_def)
qed

lemma spec_normalize_status: "status (spec_normalize raw) \<in> set VALID_MANDY_STATUS"
proof -
  have "''disconnected'' \<in> set VALID_MANDY_STATUS"
    by (simp add: VALID_MANDY_STATUS_def)
  then have "member_or VALID_MANDY_STATUS (js_member raw ''status'') ''disconnected''
               \<in> set VALID_MANDY_STATUS"
    by (rule member_or_in)
  then show ?thesis
    by (simp add: spec_normalize_def DEFAULT_MANDY_STATE_def)
qed

lemma spec_normalize_version:
  "version (spec_normalize raw) = number_or (js_member raw ''version'') 0"
  by (simp add: spec_normalize_def DEFAULT_MANDY_STATE_def)

lemma spec_normalize_fixed:
  assumes "mode s \<in> set VALID_MANDY_MODES" and "status s \<in> set VALID_MANDY_STATUS"
    and "pendingReason s = None"
  shows "spec_normalize (js_of_MandyState s) = s"
proof -
  have nullable: "nullable_string_or (js_of_nullable x) None = x" for x
    by (cases x) (simp_all add: nullable_string_or_def js_of_nullable_def)
  have "spec_normalize (js_of_MandyState s) =
          \<lparr> version = version s, mode = mode s, muted = muted s, directive = directive s,
            lockedBy = lockedBy s, updatedBy = updatedBy s, updatedAt = updatedAt s,
            status = status s, pendingReason = None \<rparr>"
    using assms(1,2)
    by (simp add: spec_normalize_def js_of_MandyState_def number_or_def member_or_def
        boolean_or_def string_or_def nullable DEFAULT_MANDY_STATE_def)
  also have "\<dots> = s"
    using assms(3) by simp
  finally show ?thesis .
qed





text \<open>
  C4. Normalizing the state that \<open>normalizeMandyState\<close> returned gives that state again.
\<close>

theorem normalizeMandyState_idempotent:
  "try_bind (normalizeMandyState x) (\<lambda>s. normalizeMandyState (js_of_MandyState s))
     = normalizeMandyState x"
proof -
  have "spec_normalize (js_of_MandyState (spec_normalize x)) = spec_normalize x"
    by (rule spec_normalize_fixed)
       (simp_all add: spec_normalize_mode spec_normalize_status, simp add: spec_normalize_def)
  then show ?thesis
    by (simp add: normalizeMandyState_spec try_bind_def)
qed

text \<open>
  C5, as stated: the version of every returned state is a non-negative integer. It
  fails on the payload \<open>{version: -1}\<close>, whose version is a number and is kept.
\<close>

theorem normalizeMandyState_version_counterexample:
  "map_sum id version (normalizeMandyState (JObject [(''version'', JNumber (- 1))])) = Inr (- 1)
     \<and> \<not> is_nonneg_integer (- 1)"
  by (simp add: normalizeMandyState_spec spec_normalize_version number_or_def
      is_nonneg_integer_def)

text \<open>
  C5, amended. The version of the returned state is the input's \<open>version\<close> when that is
  a number, whatever its sign or fraction, and 0 otherwise. So it is a non-negative
  integer exactly when the input's \<open>version\<close> is one, or is absent or not a number.
\<close>

theorem normalizeMandyState_version:
  "\<exists>s. normalizeMandyState raw = Inr s
      \<and> version s = (case js_member raw ''version'' of JNumber n \<Rightarrow> n | _ \<Rightarrow> 0)
      \<and> (is_nonneg_integer (version s) \<longleftrightarrow>
           (case js_member raw ''version'' of JNumber n \<Rightarrow> is_nonneg_integer n | _ \<Rightarrow> True))"
proof -
  have "version (spec_normalize raw) = (case js_member raw ''version'' of JNumber n \<Rightarrow> n | _ \<Rightarrow> 0)"
    by (simp add: spec_normalize_version number_or_def)
  moreover have "is_nonneg_integer 0"
    by (simp add: is_nonneg_integer_def)
  ultimately show ?thesis
    by (auto simp: normalizeMandyState_spec split: jsval.splits)
qed

section \<open>Properties of the app-message handler\<close>


lemma on_app_message_state:
  "on_app_message (state_message cand) c =
     Inr (if truthy cand \<and> version (mandyState c) \<le> candidate_version cand
          then c\<lparr>mandyState := spec_normalize cand\<rparr> else c)"
  by (simp add: on_app_message_def state_message_def try_bind_def mandy_state_updater_def
      normalizeMandyState_spec candidate_version_def spec_normalize_version)

lemma deliver_append: "deliver (xs @ ys) c = try_bind (deliver xs c) (deliver ys)"
  by (induction xs arbitrary: c) (simp_all add: try_bind_def split: sum.splits)

lemma deliver_states:
  assumes "\<forall>cand\<in>set cs. truthy cand"
  shows "\<exists>c'. deliver (map state_message cs) c = Inr c'
           \<and> mandyError c' = mandyError c
           \<and> version (mandyState c') = Max (insert (version (mandyState c)) (candidate_version ` set cs))
           \<and> ((mandyState c' = mandyState c \<and> (\<forall>x\<in>set cs. candidate_version x < version (mandyState c)))
              \<or> (\<exists>i<length cs. mandyState c' = spec_normalize (cs ! i)
                    \<and> (\<forall>j<length cs. i < j \<longrightarrow> candidate_version (cs ! j) < candidate_version (cs ! i))))"
  using assms
proof (induction cs rule: rev_induct)
  case Nil
  then show ?case by simp
next
  case (snoc x xs)
  then obtain c1 where c1: "deliver (map state_message xs) c = Inr c1"
     "mandyError c1 = mandyError c"
     "version (mandyState c1) = Max (insert (version (mandyState c)) (candidate_version ` set xs))"
     "(mandyState c1 = mandyState c \<and> (\<forall>x\<in>set xs. candidate_version x < version (mandyState c)))
              \<or> (\<exists>i<length xs. mandyState c1 = spec_normalize (xs ! i)
                    \<and> (\<forall>j<length xs. i < j \<longrightarrow> candidate_version (xs ! j) < candidate_version (xs ! i)))"
    by auto
  have tx: "truthy x" using snoc.prems by simp
  have step: "deliver (map state_message (xs @ [x])) c =
      Inr (if version (mandyState c1) \<le> candidate_version x then c1\<lparr>mandyState := spec_normalize x\<rparr> else c1)"
    using c1(1) tx by (simp add: deliver_append try_bind_def on_app_message_state)
  have mx: "Max (insert (version (mandyState c)) (candidate_version ` set (xs @ [x])))
      = max (candidate_version x) (version (mandyState c1))"
  proof -
    have "insert (version (mandyState c)) (candidate_version ` set (xs @ [x]))
        = insert (candidate_version x) (insert (version (mandyState c)) (candidate_version ` set xs))"
      by auto
    then show ?thesis
      using c1(3) by simp
  qed
  have cv: "version (spec_normalize y) = candidate_version y" for y
    by (simp add: spec_normalize_version candidate_version_def)
  show ?case
  proof (cases "version (mandyState c1) \<le> candidate_version x")
    case True
    have "\<exists>i<length (xs @ [x]). spec_normalize x = spec_normalize ((xs @ [x]) ! i)
            \<and> (\<forall>j<length (xs @ [x]). i < j \<longrightarrow>
                  candidate_version ((xs @ [x]) ! j) < candidate_version ((xs @ [x]) ! i))"
      by (rule exI [of _ "length xs"]) simp
    with True show ?thesis
      unfolding step mx using c1(2) by (simp add: cv max_def)
  next
    case False
    from c1(4) have "(mandyState c1 = mandyState c
          \<and> (\<forall>y\<in>set (xs @ [x]). candidate_version y < version (mandyState c)))
        \<or> (\<exists>i<length (xs @ [x]). mandyState c1 = spec_normalize ((xs @ [x]) ! i)
              \<and> (\<forall>j<length (xs @ [x]). i < j \<longrightarrow>
                    candidate_version ((xs @ [x]) ! j) < candidate_version ((xs @ [x]) ! i)))"
    proof
      assume "mandyState c1 = mandyState c \<and> (\<forall>x\<in>set xs. candidate_version x < version (mandyState c))"
      with False show ?thesis by auto
    next
      assume "\<exists>i<length xs. mandyState c1 = spec_normalize (xs ! i)
                \<and> (\<forall>j<length xs. i < j \<longrightarrow> candidate_version (xs ! j) < candidate_version (xs ! i))"
      then obtain i where i: "i < length xs" "mandyState c1 = spec_normalize (xs ! i)"
          "\<forall>j<length xs. i < j \<longrightarrow> candidate_version (xs ! j) < candidate_version (xs ! i)"
        by blast
      from False i(2) have lt: "candidate_version x < candidate_version (xs ! i)"
        by (simp add: cv)
      have "\<forall>j<length (xs @ [x]). i < j \<longrightarrow>
              candidate_version ((xs @ [x]) ! j) < candidate_version ((xs @ [x]) ! i)"
      proof (intro allI impI)
        fix j assume "j < length (xs @ [x])" "i < j"
        then show "candidate_version ((xs @ [x]) ! j) < candidate_version ((xs @ [x]) ! i)"
          using i(1,3) lt by (cases "j < length xs") (simp_all add: nth_append)
      qed
      with i(1,2) have "\<exists>i<length (xs @ [x]). mandyState c1 = spec_normalize ((xs @ [x]) ! i)
              \<and> (\<forall>j<length (xs @ [x]). i < j \<longrightarrow>
                    candidate_version ((xs @ [x]) ! j) < candidate_version ((xs @ [x]) ! i))"
        by (intro exI [of _ i]) (simp add: nth_append)
      then show ?thesis ..
    qed
    with False show ?thesis
      unfolding step mx using c1(2) by (simp add: max_def)
  qed
qed

text \<open>
  C2, amended. Candidate states delivered to an observer by broadcast, in any order and
  with any repetition: when the sequence is not empty, every candidate is an object (the
  handler ignores a falsy \<open>state\<close>), and the observer does not start above every
  candidate (as when it starts from the default state, of version 0, and no candidate's
  version is negative), the observer ends at the greatest version delivered, and its
  state is the normalization of the last candidate that bears that version.
\<close>

theorem monotonic_adoption:
  assumes "cs \<noteq> []"
    and "\<forall>cand\<in>set cs. truthy cand"
    and "version (mandyState c) \<le> Max (candidate_version ` set cs)"
  shows "\<exists>c'. deliver (map state_message cs) c = Inr c'
           \<and> version (mandyState c') = Max (candidate_version ` set cs)
           \<and> (\<exists>i<length cs. normalizeMandyState (cs ! i) = Inr (mandyState c')
                 \<and> candidate_version (cs ! i) = Max (candidate_version ` set cs)
                 \<and> (\<forall>j<length cs. i < j \<longrightarrow> candidate_version (cs ! j) < candidate_version (cs ! i)))"
proof -
  let ?M = "Max (candidate_version ` set cs)"
  from deliver_states [OF assms(2), of c] obtain c' where c':
    "deliver (map state_message cs) c = Inr c'"
    "version (mandyState c') = Max (insert (version (mandyState c)) (candidate_version ` set cs))"
    "(mandyState c' = mandyState c \<and> (\<forall>x\<in>set cs. candidate_version x < version (mandyState c)))
       \<or> (\<exists>i<length cs. mandyState c' = spec_normalize (cs ! i)
             \<and> (\<forall>j<length cs. i < j \<longrightarrow> candidate_version (cs ! j) < candidate_version (cs ! i)))"
    by blast
  have ne: "candidate_version ` set cs \<noteq> {}" and fin: "finite (candidate_version ` set cs)"
    using assms(1) by simp_all
  have v: "version (mandyState c') = ?M"
    using c'(2) assms(3) ne fin by (simp add: max_def)
  have "?M \<in> candidate_version ` set cs"
    using fin ne by (rule Max_in)
  then obtain y where y: "y \<in> set cs" "candidate_version y = ?M"
    by auto
  have "\<not> (\<forall>x\<in>set cs. candidate_version x < version (mandyState c))"
  proof
    assume "\<forall>x\<in>set cs. candidate_version x < version (mandyState c)"
    with y(1) have "candidate_version y < version (mandyState c)"
      by blast
    with y(2) assms(3) show False
      by simp
  qed
  with c'(3) obtain i where i: "i < length cs" "mandyState c' = spec_normalize (cs ! i)"
    "\<forall>j<length cs. i < j \<longrightarrow> candidate_version (cs ! j) < candidate_version (cs ! i)"
    by blast
  have "candidate_version (cs ! i) = version (mandyState c')"
    using i(2) by (simp add: spec_normalize_version candidate_version_def)
  with v i show ?thesis
    using c'(1) by (auto simp: normalizeMandyState_spec)
qed

theorem monotonic_adoption_witness:
  "\<exists>c'. deliver (map state_message
            [JObject [(''version'', JNumber 1), (''status'', JString ''online'')],
             JObject [(''version'', JNumber 2), (''mode'', JString ''active'')],
             JObject [(''version'', JNumber 1), (''status'', JString ''online'')]]) initial_client = Inr c'
        \<and> version (mandyState c') = 2 \<and> mode (mandyState c') = ''active''"
proof -
  let ?cs = "[JObject [(''version'', JNumber 1), (''status'', JString ''online'')],
             JObject [(''version'', JNumber 2), (''mode'', JString ''active'')],
             JObject [(''version'', JNumber 1), (''status'', JString ''online'')]]"
  have M: "Max (candidate_version ` set ?cs) = 2"
    by (simp add: candidate_version_def number_or_def)
  have h1: "?cs \<noteq> []" by simp
  have h2: "\<forall>cand\<in>set ?cs. truthy cand" by simp
  have h3: "version (mandyState initial_client) \<le> Max (candidate_version ` set ?cs)"
    unfolding M by (simp add: initial_client_def DEFAULT_MANDY_STATE_def)
  from monotonic_adoption [OF h1 h2 h3] obtain c' i where c':
    "deliver (map state_message ?cs) initial_client = Inr c'"
    "version (mandyState c') = 2" 
    "i < length ?cs" "normalizeMandyState (?cs ! i) = Inr (mandyState c')"
    "candidate_version (?cs ! i) = 2"
    unfolding M by blast
  from c'(3) have "i = 0 \<or> i = 1 \<or> i = 2"
    by auto
  with c'(5) have "i = 1"
    by (auto simp: candidate_version_def number_or_def)
  with c'(4) have "mandyState c' = spec_normalize (?cs ! 1)"
    by (simp add: normalizeMandyState_spec)
  then have "mode (mandyState c') = ''active''"
    by (simp add: spec_normalize_def member_or_def VALID_MANDY_MODES_def)
  with c'(1,2) show ?thesis by blast
qed

text \<open>
  C2, as stated: for any sequence of candidates the final version is the greatest
  version delivered. An observer at the default state that is sent the single candidate
  \<open>{version: -1}\<close> keeps the default state, of version 0, while the greatest version
  delivered is -1.
\<close>

theorem monotonic_adoption_counterexample:
  "map_sum id mandyState
       (deliver [state_message (JObject [(''version'', JNumber (- 1))])] initial_client)
     = Inr DEFAULT_MANDY_STATE
   \<and> version DEFAULT_MANDY_STATE = 0
   \<and> Max (candidate_version ` set [JObject [(''version'', JNumber (- 1))]]) = - 1"
  by (simp add: on_app_message_state try_bind_def candidate_version_def number_or_def
      initial_client_def DEFAULT_MANDY_STATE_def)

lemma on_app_message_no_regression:
  "\<exists>c'. on_app_message (state_message cand) c = Inr c'
      \<and> version (mandyState c) \<le> version (mandyState c')"
  by (simp add: on_app_message_state spec_normalize_version candidate_version_def)

text \<open>
  C1. The rule "adopt a candidate only if its version is not below the current one" is
  applied to a broadcast (\<open>on_app_message_no_regression\<close>) and not to the response of a
  control request: an observer that a broadcast has brought to version 2 adopts the
  version 1 state of a control response that arrives afterwards.
\<close>

theorem stale_control_response_adopted:
  "deliver [state_message (JObject [(''version'', JNumber 2), (''mode'', JString ''active'')])]
       initial_client
     = Inr (initial_client\<lparr>mandyState := DEFAULT_MANDY_STATE\<lparr>version := 2, mode := ''active''\<rparr>\<rparr>)
   \<and> mandyState (sendMandyControl_settle str
         (Response 200 (Json (JObject [(''state'', JObject [(''version'', JNumber 1)])])))
         (initial_client\<lparr>mandyState := DEFAULT_MANDY_STATE\<lparr>version := 2, mode := ''active''\<rparr>\<rparr>))
     = DEFAULT_MANDY_STATE\<lparr>version := 1\<rparr>"
  by (simp add: on_app_message_state try_bind_def candidate_version_def number_or_def
      initial_client_def DEFAULT_MANDY_STATE_def spec_normalize_def member_or_def
      boolean_or_def string_or_def nullable_string_or_def VALID_MANDY_MODES_def
      VALID_MANDY_STATUS_def sendMandyControl_settle_def sendMandyControl_try_def
      response_ok_def normalizeMandyState_spec)

section \<open>Properties of sendMandyControl and of the error broadcast\<close>










section \<open>Properties of the panel\<close>

lemma trim_empty_iff: "trim s = [] \<longleftrightarrow> (\<forall>ch\<in>set s. is_whitespace ch)"
proof -
  have "trim s = [] \<longleftrightarrow> (\<forall>ch\<in>set (dropWhile is_whitespace s). is_whitespace ch)"
    by (simp add: trim_def dropWhile_eq_Nil_conv)
  also have "\<dots> \<longleftrightarrow> dropWhile is_whitespace s = []"
  proof
    assume all: "\<forall>ch\<in>set (dropWhile is_whitespace s). is_whitespace ch"
    show "dropWhile is_whitespace s = []"
    proof (rule ccontr)
      assume ne: "dropWhile is_whitespace s \<noteq> []"
      then have "\<not> is_whitespace (hd (dropWhile is_whitespace s))"
        by (rule hd_dropWhile)
      moreover have "hd (dropWhile is_whitespace s) \<in> set (dropWhile is_whitespace s)"
        using ne by simp
      ultimately show False
        using all by blast
    qed
  next
    assume e: "dropWhile is_whitespace s = []"
    show "\<forall>ch\<in>set (dropWhile is_whitespace s). is_whitespace ch"
      unfolding e by simp
  qed
  also have "\<dots> \<longleftrightarrow> (\<forall>ch\<in>set s. is_whitespace ch)"
    by (simp add: dropWhile_eq_Nil_conv)
  finally show ?thesis .
qed

lemma trim_not_blank:
  assumes "trim s \<noteq> []"
  shows "\<exists>ch\<in>set (trim s). \<not> is_whitespace ch"
proof -
  let ?t = "dropWhile is_whitespace (rev (dropWhile is_whitespace s))"
  from assms have ne: "?t \<noteq> []"
    by (simp add: trim_def)
  then have "\<not> is_whitespace (hd ?t)"
    by (rule hd_dropWhile)
  moreover have "hd ?t \<in> set (trim s)"
    using ne by (simp add: trim_def)
  ultimately show ?thesis
    by blast
qed

lemma handleDirectiveSave_commands:
  assumes "p \<in> set (fst (handleDirectiveSave directiveDraft st localUserName))"
  shows "action p = ''mandy:update_directive''"
    and "payload_directive p = Some (trim directiveDraft)"
    and "trim directiveDraft \<noteq> []"
    and "trim directiveDraft \<noteq> directive st"
    and "payload_version p = Some (version st)"
  using assms by (auto simp: handleDirectiveSave_def Let_def split: if_splits)

lemma other_commands:
  assumes "p \<in> set (panel_commands ev isOwner st localUserName)"
    and "\<forall>d. ev \<noteq> DirectiveSave d"
  shows "payload_directive p = None" and "action p \<noteq> ''mandy:update_directive''"
  using assms
  by (cases ev; auto simp: handleModeChange_def handleToggleMute_def handleLockToggle_def
      requestMandyStop_def split: if_splits)+

lemma panel_directive_commands:
  "(trim directiveDraft = directive st \<longrightarrow>
      handleDirectiveSave directiveDraft st localUserName = ([], directiveDraft)
      \<and> onSendControl domainSlug roomSlug str relay
            (fst (handleDirectiveSave directiveDraft st localUserName)) c = c)
   \<and> (\<forall>p\<in>set (panel_commands ev isOwner st localUserName).
        action p = ''mandy:update_directive'' \<longrightarrow>
          payload_directive p \<noteq> Some (directive st) \<and> payload_version p = Some (version st))"
proof (intro conjI impI ballI)
  assume "trim directiveDraft = directive st"
  then show "handleDirectiveSave directiveDraft st localUserName = ([], directiveDraft)"
    and "onSendControl domainSlug roomSlug str relay
            (fst (handleDirectiveSave directiveDraft st localUserName)) c = c"
    by (simp_all add: handleDirectiveSave_def onSendControl_def)
next
  fix p
  assume p: "p \<in> set (panel_commands ev isOwner st localUserName)"
    and a: "action p = ''mandy:update_directive''"
  show "payload_directive p \<noteq> Some (directive st)"
  proof (cases "\<exists>d. ev = DirectiveSave d")
    case True
    then obtain d where "ev = DirectiveSave d" by blast
    with p have "p \<in> set (fst (handleDirectiveSave d st localUserName))"
      by simp
    then show ?thesis
      using handleDirectiveSave_commands(2,4) by fastforce
  next
    case False
    with p a show ?thesis
      using other_commands(2) by blast
  qed
  show "payload_version p = Some (version st)"
  proof (cases "\<exists>d. ev = DirectiveSave d")
    case True
    then obtain d where "ev = DirectiveSave d" by blast
    with p have "p \<in> set (fst (handleDirectiveSave d st localUserName))"
      by simp
    then show ?thesis
      by (rule handleDirectiveSave_commands(5))
  next
    case False
    with p a show ?thesis
      using other_commands(2) by blast
  qed
qed

lemma authority_identical:
  "authority_update_directive increment now (directive auth) requester auth = auth"
  by (simp add: authority_update_directive_def)

lemma authority_changed:
  assumes "new_directive \<noteq> directive auth"
  shows "version auth < version (authority_update_directive increment now new_directive requester auth)"
    and "directive (authority_update_directive increment now new_directive requester auth) = new_directive"
    and "updatedBy (authority_update_directive increment now new_directive requester auth) = Some requester"
  using assms by (simp_all add: authority_update_directive_def max_def)

lemma settle_authority_answer:
  "version (mandyState (sendMandyControl_settle str (authority_answer auth) c)) = version auth"
  by (simp add: authority_answer_def sendMandyControl_settle_def sendMandyControl_try_def
      response_ok_def normalizeMandyState_spec spec_normalize_version js_of_MandyState_def
      number_or_def)

text \<open>
  C9. At the authority, as the specification describes it, a \<open>mandy:update_directive\<close>
  whose directive is the current one is a no-op: the state and its version are what they
  were, and a client that adopts the answer holds that version; a different directive
  raises the version. At the panel, when the trimmed draft equals the directive the
  client holds, \<open>handleDirectiveSave\<close> sends no command and leaves the draft and the
  client's state as they are; no event of the panel sends a \<open>mandy:update_directive\<close>
  whose directive is the one the client holds, and the ones it sends state the client's
  version.
\<close>

theorem directive_unchanged_sends_nothing:
  "(trim directiveDraft = directive st \<longrightarrow>
      handleDirectiveSave directiveDraft st localUserName = ([], directiveDraft)
      \<and> onSendControl domainSlug roomSlug str relay
            (fst (handleDirectiveSave directiveDraft st localUserName)) c = c)
   \<and> (\<forall>p\<in>set (panel_commands ev isOwner st localUserName).
        action p = ''mandy:update_directive'' \<longrightarrow>
          payload_directive p \<noteq> Some (directive st) \<and> payload_version p = Some (version st))
   \<and> (new_directive = directive auth \<longrightarrow>
        authority_update_directive increment now new_directive requester auth = auth
        \<and> version (authority_update_directive increment now new_directive requester auth)
            = version auth
        \<and> version (mandyState (sendMandyControl_settle str
              (authority_answer (authority_update_directive increment now new_directive requester auth))
              c)) = version auth)
   \<and> (new_directive \<noteq> directive auth \<longrightarrow>
        version auth < version (authority_update_directive increment now new_directive requester auth)
        \<and> directive (authority_update_directive increment now new_directive requester auth)
            = new_directive
        \<and> updatedBy (authority_update_directive increment now new_directive requester auth)
            = Some requester)"
proof -
  note panel = panel_directive_commands
      [of directiveDraft st localUserName domainSlug roomSlug str relay c ev isOwner]
  have a1: "new_directive = directive auth \<longrightarrow>
        authority_update_directive increment now new_directive requester auth = auth
        \<and> version (authority_update_directive increment now new_directive requester auth)
            = version auth
        \<and> version (mandyState (sendMandyControl_settle str
              (authority_answer (authority_update_directive increment now new_directive requester auth))
              c)) = version auth"
    by (simp add: authority_identical settle_authority_answer)
  have a2: "new_directive \<noteq> directive auth \<longrightarrow>
        version auth < version (authority_update_directive increment now new_directive requester auth)
        \<and> directive (authority_update_directive increment now new_directive requester auth)
            = new_directive
        \<and> updatedBy (authority_update_directive increment now new_directive requester auth)
            = Some requester"
    using authority_changed [of new_directive auth increment now requester] by blast
  from panel a1 a2 show ?thesis
    by (elim conjE) (intro conjI; assumption)
qed

text \<open>
  C10. When the draft is empty or white space only, \<open>handleDirectiveSave\<close> sends no
  command. Every command an event of the panel sends either carries no directive, and
  is then not a \<open>mandy:update_directive\<close>, or carries one that is not empty and not
  white space only: no command of the panel sets the directive to the empty string.
\<close>

theorem panel_never_clears_directive:
  "((\<forall>ch\<in>set directiveDraft. is_whitespace ch) \<longrightarrow>
      handleDirectiveSave directiveDraft st localUserName = ([], directiveDraft))
   \<and> (\<forall>p\<in>set (panel_commands ev isOwner st localUserName).
        case payload_directive p of
          None \<Rightarrow> action p \<noteq> ''mandy:update_directive''
        | Some d \<Rightarrow> d \<noteq> [] \<and> (\<exists>ch\<in>set d. \<not> is_whitespace ch))"
proof (intro conjI impI ballI)
  assume "\<forall>ch\<in>set directiveDraft. is_whitespace ch"
  then have "trim directiveDraft = []"
    by (simp add: trim_empty_iff)
  then show "handleDirectiveSave directiveDraft st localUserName = ([], directiveDraft)"
    by (simp add: handleDirectiveSave_def)
next
  fix p
  assume p: "p \<in> set (panel_commands ev isOwner st localUserName)"
  show "case payload_directive p of
          None \<Rightarrow> action p \<noteq> ''mandy:update_directive''
        | Some d \<Rightarrow> d \<noteq> [] \<and> (\<exists>ch\<in>set d. \<not> is_whitespace ch)"
  proof (cases "\<exists>d. ev = DirectiveSave d")
    case True
    then obtain d where "ev = DirectiveSave d" by blast
    with p have "p \<in> set (fst (handleDirectiveSave d st localUserName))"
      by simp
    then have "payload_directive p = Some (trim d)" and "trim d \<noteq> []"
      by (rule handleDirectiveSave_commands(2), rule handleDirectiveSave_commands(3))
    then show ?thesis
      using trim_not_blank [of d] by simp
  next
    case False
    with p show ?thesis
      using other_commands [of p ev isOwner st localUserName] by simp
  qed
qed

theorem directive_unchanged_sends_nothing_witness:
  "handleDirectiveSave ''  keep notes  ''
       (DEFAULT_MANDY_STATE\<lparr>directive := ''keep notes'', version := 4\<rparr>) ''Ana''
     = ([], ''  keep notes  '')
   \<and> onSendControl ''misfits'' ''room-1'' (\<lambda>v. ''[object Object]'')
       (\<lambda>payload. Response 200 (Json (JObject [(''state'', JObject [(''version'', JNumber 5)])])))
       (fst (handleDirectiveSave ''  keep notes  ''
          (DEFAULT_MANDY_STATE\<lparr>directive := ''keep notes'', version := 4\<rparr>) ''Ana''))
       \<lparr> mandyState = DEFAULT_MANDY_STATE\<lparr>directive := ''keep notes'', version := 4\<rparr>,
         mandyError = JNull \<rparr>
     = \<lparr> mandyState = DEFAULT_MANDY_STATE\<lparr>directive := ''keep notes'', version := 4\<rparr>,
         mandyError = JNull \<rparr>
   \<and> map payload_directive (panel_commands (DirectiveSave ''new plan '') False
         (DEFAULT_MANDY_STATE\<lparr>directive := ''keep notes'', version := 4\<rparr>) ''Ana'')
     = [Some ''new plan'']
   \<and> Some ''new plan'' \<noteq> Some (directive (DEFAULT_MANDY_STATE\<lparr>directive := ''keep notes'', version := 4\<rparr>))
   \<and> authority_update_directive 1 ''2026-01-01T00:00:00Z'' ''keep notes'' ''Ana''
         (DEFAULT_MANDY_STATE\<lparr>directive := ''keep notes'', version := 4\<rparr>)
     = DEFAULT_MANDY_STATE\<lparr>directive := ''keep notes'', version := 4\<rparr>
   \<and> version (authority_update_directive 1 ''2026-01-01T00:00:00Z'' ''new plan'' ''Ana''
         (DEFAULT_MANDY_STATE\<lparr>directive := ''keep notes'', version := 4\<rparr>)) > 4"
proof -
  let ?st = "DEFAULT_MANDY_STATE\<lparr>directive := ''keep notes'', version := 4\<rparr>"
  let ?p = "\<lparr> action = ''mandy:update_directive'', payload_mode = None,
              payload_directive = Some ''new plan'', reason = None,
              requestedBy = Some ''Ana'', payload_version = Some 4 \<rparr>"
  note t = directive_unchanged_sends_nothing
      [of "''  keep notes  ''" ?st "''Ana''" "''misfits''" "''room-1''"
          "\<lambda>v. ''[object Object]''"
          "\<lambda>payload. Response 200 (Json (JObject [(''state'', JObject [(''version'', JNumber 5)])]))"
          "\<lparr> mandyState = ?st, mandyError = JNull \<rparr>" "DirectiveSave ''new plan ''" False]
  have h: "trim ''  keep notes  '' = directive ?st"
    by (simp add: trim_def is_whitespace_def)
  have cmds: "panel_commands (DirectiveSave ''new plan '') False ?st ''Ana'' = [?p]"
    by (simp add: handleDirectiveSave_def trim_def is_whitespace_def Let_def)
  from t h have "handleDirectiveSave ''  keep notes  '' ?st ''Ana'' = ([], ''  keep notes  '')"
    and "onSendControl ''misfits'' ''room-1'' (\<lambda>v. ''[object Object]'')
       (\<lambda>payload. Response 200 (Json (JObject [(''state'', JObject [(''version'', JNumber 5)])])))
       (fst (handleDirectiveSave ''  keep notes  '' ?st ''Ana''))
       \<lparr> mandyState = ?st, mandyError = JNull \<rparr> = \<lparr> mandyState = ?st, mandyError = JNull \<rparr>"
    by blast+
  moreover from t cmds have "payload_directive ?p \<noteq> Some (directive ?st)"
    by simp
  ultimately have panel: "handleDirectiveSave ''  keep notes  '' ?st ''Ana'' = ([], ''  keep notes  '')
   \<and> onSendControl ''misfits'' ''room-1'' (\<lambda>v. ''[object Object]'')
       (\<lambda>payload. Response 200 (Json (JObject [(''state'', JObject [(''version'', JNumber 5)])])))
       (fst (handleDirectiveSave ''  keep notes  '' ?st ''Ana''))
       \<lparr> mandyState = ?st, mandyError = JNull \<rparr> = \<lparr> mandyState = ?st, mandyError = JNull \<rparr>
   \<and> map payload_directive (panel_commands (DirectiveSave ''new plan '') False ?st ''Ana'')
     = [Some ''new plan'']
   \<and> Some ''new plan'' \<noteq> Some (directive ?st)"
    using cmds by simp
  have same: "''keep notes'' = directive ?st" and other: "''new plan'' \<noteq> directive ?st"
    by simp_all
  from directive_unchanged_sends_nothing
      [where new_directive = "''keep notes''" and auth = ?st and increment = 1
         and now = "''2026-01-01T00:00:00Z''" and requester = "''Ana''"] same
  have a1: "authority_update_directive 1 ''2026-01-01T00:00:00Z'' ''keep notes'' ''Ana'' ?st = ?st"
    by blast
  from directive_unchanged_sends_nothing
      [where new_directive = "''new plan''" and auth = ?st and increment = 1
         and now = "''2026-01-01T00:00:00Z''" and requester = "''Ana''"] other
  have "version ?st
      < version (authority_update_directive 1 ''2026-01-01T00:00:00Z'' ''new plan'' ''Ana'' ?st)"
    by blast
  then have a2: "version (authority_update_directive 1 ''2026-01-01T00:00:00Z'' ''new plan'' ''Ana'' ?st) > 4"
    by simp
  from panel a1 a2 show ?thesis
    by (elim conjE) (intro conjI; assumption)
qed

theorem panel_never_clears_directive_witness:
  "handleDirectiveSave [CHR '' '', CHR 0x09, CHR 0x0A]
       (DEFAULT_MANDY_STATE\<lparr>directive := ''keep notes'', version := 4\<rparr>) ''Ana''
     = ([], [CHR '' '', CHR 0x09, CHR 0x0A])
   \<and> map payload_directive (panel_commands (DirectiveSave ''  new plan '') False
         (DEFAULT_MANDY_STATE\<lparr>directive := ''keep notes'', version := 4\<rparr>) ''Ana'')
     = [Some ''new plan'']
   \<and> \<not> is_whitespace (CHR ''n'')"
proof -
  let ?st = "DEFAULT_MANDY_STATE\<lparr>directive := ''keep notes'', version := 4\<rparr>"
  let ?blank = "[CHR '' '', CHR 0x09, CHR 0x0A]"
  let ?p = "\<lparr> action = ''mandy:update_directive'', payload_mode = None,
              payload_directive = Some ''new plan'', reason = None,
              requestedBy = Some ''Ana'', payload_version = Some 4 \<rparr>"
  note t = panel_never_clears_directive
      [of ?blank ?st "''Ana''" "DirectiveSave ''  new plan ''" False]
  have h: "\<forall>ch\<in>set ?blank. is_whitespace ch"
    by (simp add: is_whitespace_def)
  have cmds: "panel_commands (DirectiveSave ''  new plan '') False ?st ''Ana'' = [?p]"
    by (simp add: handleDirectiveSave_def trim_def is_whitespace_def Let_def)
  from t h have "handleDirectiveSave ?blank ?st ''Ana'' = ([], ?blank)"
    by blast
  moreover from t cmds have "\<exists>ch\<in>set ''new plan''. \<not> is_whitespace ch"
    by simp
  moreover have "\<not> is_whitespace (CHR ''n'')"
    by (simp add: is_whitespace_def)
  ultimately show ?thesis
    using cmds by simp
qed

section \<open>Properties of the control relay\<close>

lemma js_member_nullish_or: "js_member (nullish_or b (JObject [])) k = js_member b k"
  by (cases b) simp_all

lemma relay_upstream_forwarded: "forwarded (relay_upstream fallback upstream request) = [request]"
  by (simp add: relay_upstream_def Let_def)

lemma forwarded_reply: "forwarded (reply st b) = []"
  by (simp add: reply_def)

lemma handler_start_forwarded:
  assumes "forwarded (handler_start serviceUrl upstream req) = [request]"
  shows "handler_start serviceUrl upstream req = relay_upstream ''Failed to start Mandy.'' upstream request"
proof -
  from assms obtain rq where
    "handler_start serviceUrl upstream req = relay_upstream ''Failed to start Mandy.'' upstream rq"
    by (auto simp: handler_start_def Let_def method_not_allowed_def not_configured_def
        forwarded_reply split: if_splits option.splits)
  with assms show ?thesis
    by (simp add: relay_upstream_forwarded)
qed

lemma handler_control_forwarded:
  assumes "forwarded (handler_control serviceUrl upstream req) = [request]"
  shows "handler_control serviceUrl upstream req = relay_upstream ''Failed to update Mandy.'' upstream request"
proof -
  from assms obtain rq where
    "handler_control serviceUrl upstream req = relay_upstream ''Failed to update Mandy.'' upstream rq"
    by (auto simp: handler_control_def Let_def method_not_allowed_def not_configured_def
        forwarded_reply split: if_splits option.splits)
  with assms show ?thesis
    by (simp add: relay_upstream_forwarded)
qed

lemma handler_state_forwarded:
  assumes "forwarded (handler_state enc serviceUrl upstream req) = [request]"
  shows "handler_state enc serviceUrl upstream req = relay_upstream ''Failed to fetch Mandy state.'' upstream request"
proof -
  from assms obtain rq where
    "handler_state enc serviceUrl upstream req = relay_upstream ''Failed to fetch Mandy state.'' upstream rq"
    by (auto simp: handler_state_def Let_def method_not_allowed_def not_configured_def
        forwarded_reply split: if_splits option.splits query_value.splits)
  with assms show ?thesis
    by (simp add: relay_upstream_forwarded)
qed

lemma relay_upstream_json:
  assumes "upstream request = Response st (Json payload)"
  shows "relays_answer fallback st payload (relay_upstream fallback upstream request)"
  using assms
  by (simp add: relays_answer_def relay_upstream_def Let_def reply_def error_body_def or_else_def
      split: jsval.splits)

lemma relay_upstream_failure:
  assumes "upstream request = Rejected err \<or> upstream request = Response st (JsonRejected err)"
  shows "relays_failure err (relay_upstream fallback upstream request)"
  using assms
  by (auto simp: relays_failure_def relay_upstream_def Let_def reply_def error_body_def or_else_def)

text \<open>
  C7, amended. For every command a handler forwarded, when the backend's response body
  parses as JSON: on a status that is not a success the relay answers with that status
  and the backend's message (\<open>detail\<close> when a string, else \<open>error\<close> when truthy, else
  the endpoint's fixed text); on a success status it answers 200 with the backend's body
  unchanged. When the fetch rejects or the body is not JSON, it answers 500 with the
  message of the thrown value or a fixed text.
\<close>

theorem relay_answers:
  "(forwarded (handler_start serviceUrl upstream req) = [request]
      \<and> upstream request = Response st (Json payload) \<longrightarrow>
        relays_answer ''Failed to start Mandy.'' st payload (handler_start serviceUrl upstream req))
   \<and> (forwarded (handler_control serviceUrl upstream req) = [request]
      \<and> upstream request = Response st (Json payload) \<longrightarrow>
        relays_answer ''Failed to update Mandy.'' st payload (handler_control serviceUrl upstream req))
   \<and> (forwarded (handler_state enc serviceUrl upstream req) = [request]
      \<and> upstream request = Response st (Json payload) \<longrightarrow>
        relays_answer ''Failed to fetch Mandy state.'' st payload
          (handler_state enc serviceUrl upstream req))
   \<and> (forwarded (handler_start serviceUrl upstream req) = [request]
      \<and> (upstream request = Rejected err \<or> upstream request = Response st (JsonRejected err)) \<longrightarrow>
        relays_failure err (handler_start serviceUrl upstream req))
   \<and> (forwarded (handler_control serviceUrl upstream req) = [request]
      \<and> (upstream request = Rejected err \<or> upstream request = Response st (JsonRejected err)) \<longrightarrow>
        relays_failure err (handler_control serviceUrl upstream req))
   \<and> (forwarded (handler_state enc serviceUrl upstream req) = [request]
      \<and> (upstream request = Rejected err \<or> upstream request = Response st (JsonRejected err)) \<longrightarrow>
        relays_failure err (handler_state enc serviceUrl upstream req))"
proof (intro conjI impI)
  assume "forwarded (handler_start serviceUrl upstream req) = [request]
      \<and> upstream request = Response st (Json payload)"
  then show "relays_answer ''Failed to start Mandy.'' st payload (handler_start serviceUrl upstream req)"
    using handler_start_forwarded relay_upstream_json by metis
next
  assume "forwarded (handler_control serviceUrl upstream req) = [request]
      \<and> upstream request = Response st (Json payload)"
  then show "relays_answer ''Failed to update Mandy.'' st payload (handler_control serviceUrl upstream req)"
    using handler_control_forwarded relay_upstream_json by metis
next
  assume "forwarded (handler_state enc serviceUrl upstream req) = [request]
      \<and> upstream request = Response st (Json payload)"
  then show "relays_answer ''Failed to fetch Mandy state.'' st payload
          (handler_state enc serviceUrl upstream req)"
    using handler_state_forwarded relay_upstream_json by metis
next
  assume "forwarded (handler_start serviceUrl upstream req) = [request]
      \<and> (upstream request = Rejected err \<or> upstream request = Response st (JsonRejected err))"
  then show "relays_failure err (handler_start serviceUrl upstream req)"
    using handler_start_forwarded relay_upstream_failure by metis
next
  assume "forwarded (handler_control serviceUrl upstream req) = [request]
      \<and> (upstream request = Rejected err \<or> upstream request = Response st (JsonRejected err))"
  then show "relays_failure err (handler_control serviceUrl upstream req)"
    using handler_control_forwarded relay_upstream_failure by metis
next
  assume "forwarded (handler_state enc serviceUrl upstream req) = [request]
      \<and> (upstream request = Rejected err \<or> upstream request = Response st (JsonRejected err))"
  then show "relays_failure err (handler_state enc serviceUrl upstream req)"
    using handler_state_forwarded relay_upstream_failure by metis
qed

theorem relay_answers_witness:
  "res_status (handler_control (Some ''http://localhost:8000/'')
        (\<lambda>request. Response 409 (Json (JObject [(''detail'', JString ''Mandy is locked by Ana'')])))
        \<lparr> req_method = ''POST'',
          req_body = JObject [(''domain'', JString ''misfits''), (''room'', JString ''room-1''),
                              (''action'', JString ''mandy:set_mode''), (''mode'', JString ''active'')],
          req_query = [] \<rparr>) = 409
   \<and> res_body (handler_control (Some ''http://localhost:8000/'')
        (\<lambda>request. Response 409 (Json (JObject [(''detail'', JString ''Mandy is locked by Ana'')])))
        \<lparr> req_method = ''POST'',
          req_body = JObject [(''domain'', JString ''misfits''), (''room'', JString ''room-1''),
                              (''action'', JString ''mandy:set_mode''), (''mode'', JString ''active'')],
          req_query = [] \<rparr>) = JObject [(''error'', JString ''Mandy is locked by Ana'')]
   \<and> res_status (handler_start (Some ''http://localhost:8000'')
        (\<lambda>request. Response 201 (Json (JObject [(''state'', JObject [(''version'', JNumber 1)])])))
        \<lparr> req_method = ''POST'',
          req_body = JObject [(''domain'', JString ''misfits''), (''room'', JString ''room-1'')],
          req_query = [] \<rparr>) = 200
   \<and> res_body (handler_start (Some ''http://localhost:8000'')
        (\<lambda>request. Response 201 (Json (JObject [(''state'', JObject [(''version'', JNumber 1)])])))
        \<lparr> req_method = ''POST'',
          req_body = JObject [(''domain'', JString ''misfits''), (''room'', JString ''room-1'')],
          req_query = [] \<rparr>) = JObject [(''state'', JObject [(''version'', JNumber 1)])]
   \<and> res_status (handler_state id (Some ''http://localhost:8000'') unreachable
        \<lparr> req_method = ''GET'', req_body = JUndefined,
          req_query = [(''domain'', QString ''misfits''), (''room'', QString ''room-1'')] \<rparr>) = 500"
proof -
  let ?locked = "\<lambda>request::upstream_request.
      Response 409 (Json (JObject [(''detail'', JString ''Mandy is locked by Ana'')]))"
  let ?created = "\<lambda>request::upstream_request.
      Response 201 (Json (JObject [(''state'', JObject [(''version'', JNumber 1)])]))"
  let ?control = "\<lparr> req_method = ''POST'',
          req_body = JObject [(''domain'', JString ''misfits''), (''room'', JString ''room-1''),
                              (''action'', JString ''mandy:set_mode''), (''mode'', JString ''active'')],
          req_query = [] \<rparr>"
  let ?start = "\<lparr> req_method = ''POST'',
          req_body = JObject [(''domain'', JString ''misfits''), (''room'', JString ''room-1'')],
          req_query = [] \<rparr>"
  let ?get = "\<lparr> req_method = ''GET'', req_body = JUndefined,
          req_query = [(''domain'', QString ''misfits''), (''room'', QString ''room-1'')] \<rparr>"
  let ?rq1 = "\<lparr> up_method = ''POST'', up_url = ''http://localhost:8000/api/control'',
          up_body = Some (JObject [(''domain'', JString ''misfits''), (''room'', JString ''room-1''),
                                   (''action'', JString ''mandy:set_mode''), (''mode'', JString ''active'')]) \<rparr>"
  let ?rq2 = "\<lparr> up_method = ''POST'', up_url = ''http://localhost:8000/api/start'',
          up_body = Some (JObject [(''domain'', JString ''misfits''), (''room'', JString ''room-1'')]) \<rparr>"
  let ?rq3 = "\<lparr> up_method = ''GET'',
          up_url = ''http://localhost:8000/api/state?domain=misfits&room=room-1'',
          up_body = None \<rparr>"
  have f1: "forwarded (handler_control (Some ''http://localhost:8000/'') ?locked ?control) = [?rq1]"
    by (simp add: handler_control_def Let_def relay_upstream_def strip_trailing_slash_def
        json_object_def)
  have f2: "forwarded (handler_start (Some ''http://localhost:8000'') ?created ?start) = [?rq2]"
    by (simp add: handler_start_def Let_def relay_upstream_def strip_trailing_slash_def
        json_object_def)
  have f3: "forwarded (handler_state id (Some ''http://localhost:8000'') unreachable ?get) = [?rq3]"
    by (simp add: handler_state_def Let_def relay_upstream_def strip_trailing_slash_def)
  have u3: "unreachable ?rq3 = Rejected (JObject [(''message'', JString ''fetch failed'')])"
    by (simp add: unreachable_def)
  from relay_answers [of "Some ''http://localhost:8000/''" ?locked ?control ?rq1 409
      "JObject [(''detail'', JString ''Mandy is locked by Ana'')]"] f1
  have "relays_answer ''Failed to update Mandy.'' 409
          (JObject [(''detail'', JString ''Mandy is locked by Ana'')])
          (handler_control (Some ''http://localhost:8000/'') ?locked ?control)"
    by blast
  then have a1: "res_status (handler_control (Some ''http://localhost:8000/'') ?locked ?control) = 409"
    and a2: "res_body (handler_control (Some ''http://localhost:8000/'') ?locked ?control)
               = JObject [(''error'', JString ''Mandy is locked by Ana'')]"
    by (simp_all add: relays_answer_def response_ok_def)
  from relay_answers [of "Some ''http://localhost:8000''" ?created ?start ?rq2 201
      "JObject [(''state'', JObject [(''version'', JNumber 1)])]"] f2
  have "relays_answer ''Failed to start Mandy.'' 201
          (JObject [(''state'', JObject [(''version'', JNumber 1)])])
          (handler_start (Some ''http://localhost:8000'') ?created ?start)"
    by blast
  then have a3: "res_status (handler_start (Some ''http://localhost:8000'') ?created ?start) = 200"
    and a4: "res_body (handler_start (Some ''http://localhost:8000'') ?created ?start)
               = JObject [(''state'', JObject [(''version'', JNumber 1)])]"
    by (simp_all add: relays_answer_def response_ok_def)
  from relay_answers [of "Some ''http://localhost:8000''" unreachable ?get ?rq3 _ _ id
      "JObject [(''message'', JString ''fetch failed'')]"] f3 u3
  have "relays_failure (JObject [(''message'', JString ''fetch failed'')])
          (handler_state id (Some ''http://localhost:8000'') unreachable ?get)"
    by blast
  then have a5: "res_status (handler_state id (Some ''http://localhost:8000'') unreachable ?get) = 500"
    by (simp add: relays_failure_def)
  from a1 a2 a3 a4 a5 show ?thesis
    by blast
qed

text \<open>
  C7, as stated: on a status of the backend that is not a success, the relay fails at
  the backend's status. It does not when the body is not JSON: a command is forwarded,
  the backend answers 503 with a page that does not parse, and the relay answers 500.
\<close>

theorem relay_answers_counterexample:
  "forwarded (handler_control (Some ''http://localhost:8000'') html_503
       \<lparr> req_method = ''POST'',
         req_body = JObject [(''domain'', JString ''misfits''), (''room'', JString ''room-1''),
                             (''action'', JString ''mandy:mute'')],
         req_query = [] \<rparr>)
     = [\<lparr> up_method = ''POST'', up_url = ''http://localhost:8000/api/control'',
          up_body = Some (JObject [(''domain'', JString ''misfits''), (''room'', JString ''room-1''),
                                   (''action'', JString ''mandy:mute'')]) \<rparr>]
   \<and> html_503 \<lparr> up_method = ''POST'', up_url = ''http://localhost:8000/api/control'',
          up_body = Some (JObject [(''domain'', JString ''misfits''), (''room'', JString ''room-1''),
                                   (''action'', JString ''mandy:mute'')]) \<rparr>
     = Response 503 (JsonRejected (JObject [(''message'', JString ''Unexpected token < in JSON'')]))
   \<and> res_status (handler_control (Some ''http://localhost:8000'') html_503
       \<lparr> req_method = ''POST'',
         req_body = JObject [(''domain'', JString ''misfits''), (''room'', JString ''room-1''),
                             (''action'', JString ''mandy:mute'')],
         req_query = [] \<rparr>) = 500"
  by (simp add: handler_control_def Let_def relay_upstream_def html_503_def reply_def
      strip_trailing_slash_def json_object_def)

text \<open>
  C6, amended. For a request with the endpoint's method (POST for start and control, GET
  for state), a missing room address or an unconfigured service address makes the relay
  fail without forwarding anything. The shape is 400 with the text naming domain and
  room when the room address is missing (on start whatever the service address, on
  control and state only when the service address is configured), and 500 with the
  not-configured text when the service address is unset or empty (on control and state
  whatever the room address, on start only when the room address is present). A request
  with another method is answered 405, and nothing is forwarded either.
\<close>

theorem relay_guards:
  "(req_method req = ''POST'' \<and> address_missing (req_body req) \<longrightarrow>
      handler_start serviceUrl upstream req =
        \<lparr> res_status = 400,
          res_body = JObject [(''error'', JString ''Both domain and room are required to invite Mandy.'')],
          res_allow = None, forwarded = [] \<rparr>)
   \<and> (req_method req = ''POST'' \<and> \<not> address_missing (req_body req)
        \<and> service_url_missing serviceUrl \<longrightarrow>
      handler_start serviceUrl upstream req =
        \<lparr> res_status = 500,
          res_body = JObject [(''error'', JString ''MANDY_SERVICE_URL is not configured on the server.'')],
          res_allow = None, forwarded = [] \<rparr>)
   \<and> (req_method req = ''POST'' \<and> service_url_missing serviceUrl \<longrightarrow>
      handler_control serviceUrl upstream req =
        \<lparr> res_status = 500,
          res_body = JObject [(''error'', JString ''MANDY_SERVICE_URL is not configured on the server.'')],
          res_allow = None, forwarded = [] \<rparr>)
   \<and> (req_method req = ''POST'' \<and> \<not> service_url_missing serviceUrl
        \<and> address_missing (req_body req) \<longrightarrow>
      handler_control serviceUrl upstream req =
        \<lparr> res_status = 400,
          res_body = JObject [(''error'', JString ''Both domain and room are required to control Mandy.'')],
          res_allow = None, forwarded = [] \<rparr>)
   \<and> (req_method req = ''GET'' \<and> service_url_missing serviceUrl \<longrightarrow>
      handler_state enc serviceUrl upstream req =
        \<lparr> res_status = 500,
          res_body = JObject [(''error'', JString ''MANDY_SERVICE_URL is not configured on the server.'')],
          res_allow = None, forwarded = [] \<rparr>)
   \<and> (req_method req = ''GET'' \<and> \<not> service_url_missing serviceUrl
        \<and> query_address_missing (req_query req) \<longrightarrow>
      handler_state enc serviceUrl upstream req =
        \<lparr> res_status = 400,
          res_body = JObject [(''error'', JString ''Both domain and room must be provided as query parameters.'')],
          res_allow = None, forwarded = [] \<rparr>)
   \<and> (req_method req \<noteq> ''POST'' \<longrightarrow>
      handler_start serviceUrl upstream req =
        \<lparr> res_status = 405, res_body = JObject [(''error'', JString ''Method not allowed'')],
          res_allow = Some ''POST'', forwarded = [] \<rparr>
      \<and> handler_control serviceUrl upstream req =
        \<lparr> res_status = 405, res_body = JObject [(''error'', JString ''Method not allowed'')],
          res_allow = Some ''POST'', forwarded = [] \<rparr>)
   \<and> (req_method req \<noteq> ''GET'' \<longrightarrow>
      handler_state enc serviceUrl upstream req =
        \<lparr> res_status = 405, res_body = JObject [(''error'', JString ''Method not allowed'')],
          res_allow = Some ''GET'', forwarded = [] \<rparr>)"
proof (intro conjI impI)
  assume "req_method req = ''POST'' \<and> address_missing (req_body req)"
  then show "handler_start serviceUrl upstream req =
        \<lparr> res_status = 400,
          res_body = JObject [(''error'', JString ''Both domain and room are required to invite Mandy.'')],
          res_allow = None, forwarded = [] \<rparr>"
    by (auto simp: handler_start_def Let_def address_missing_def js_member_nullish_or reply_def
        error_body_def)
next
  assume "req_method req = ''POST'' \<and> \<not> address_missing (req_body req)
        \<and> service_url_missing serviceUrl"
  then show "handler_start serviceUrl upstream req =
        \<lparr> res_status = 500,
          res_body = JObject [(''error'', JString ''MANDY_SERVICE_URL is not configured on the server.'')],
          res_allow = None, forwarded = [] \<rparr>"
    by (auto simp: handler_start_def Let_def address_missing_def js_member_nullish_or reply_def
        error_body_def not_configured_def service_url_missing_def split: option.splits)
next
  assume "req_method req = ''POST'' \<and> service_url_missing serviceUrl"
  then show "handler_control serviceUrl upstream req =
        \<lparr> res_status = 500,
          res_body = JObject [(''error'', JString ''MANDY_SERVICE_URL is not configured on the server.'')],
          res_allow = None, forwarded = [] \<rparr>"
    by (auto simp: handler_control_def reply_def error_body_def not_configured_def
        service_url_missing_def split: option.splits)
next
  assume "req_method req = ''POST'' \<and> \<not> service_url_missing serviceUrl
        \<and> address_missing (req_body req)"
  then show "handler_control serviceUrl upstream req =
        \<lparr> res_status = 400,
          res_body = JObject [(''error'', JString ''Both domain and room are required to control Mandy.'')],
          res_allow = None, forwarded = [] \<rparr>"
    by (auto simp: handler_control_def Let_def address_missing_def js_member_nullish_or reply_def
        error_body_def service_url_missing_def split: option.splits)
next
  assume "req_method req = ''GET'' \<and> service_url_missing serviceUrl"
  then show "handler_state enc serviceUrl upstream req =
        \<lparr> res_status = 500,
          res_body = JObject [(''error'', JString ''MANDY_SERVICE_URL is not configured on the server.'')],
          res_allow = None, forwarded = [] \<rparr>"
    by (auto simp: handler_state_def reply_def error_body_def not_configured_def
        service_url_missing_def split: option.splits)
next
  assume a: "req_method req = ''GET'' \<and> \<not> service_url_missing serviceUrl
        \<and> query_address_missing (req_query req)"
  then have "\<not> (\<exists>d r. map_of (req_query req) ''domain'' = Some (QString d)
                    \<and> map_of (req_query req) ''room'' = Some (QString r))"
    by (auto simp: query_address_missing_def)
  with a show "handler_state enc serviceUrl upstream req =
        \<lparr> res_status = 400,
          res_body = JObject [(''error'', JString ''Both domain and room must be provided as query parameters.'')],
          res_allow = None, forwarded = [] \<rparr>"
    by (auto simp: handler_state_def reply_def error_body_def service_url_missing_def
        split: option.splits query_value.splits)
next
  assume "req_method req \<noteq> ''POST''"
  then show "handler_start serviceUrl upstream req =
        \<lparr> res_status = 405, res_body = JObject [(''error'', JString ''Method not allowed'')],
          res_allow = Some ''POST'', forwarded = [] \<rparr>"
    and "handler_control serviceUrl upstream req =
        \<lparr> res_status = 405, res_body = JObject [(''error'', JString ''Method not allowed'')],
          res_allow = Some ''POST'', forwarded = [] \<rparr>"
    by (simp_all add: handler_start_def handler_control_def method_not_allowed_def reply_def
        error_body_def)
next
  assume "req_method req \<noteq> ''GET''"
  then show "handler_state enc serviceUrl upstream req =
        \<lparr> res_status = 405, res_body = JObject [(''error'', JString ''Method not allowed'')],
          res_allow = Some ''GET'', forwarded = [] \<rparr>"
    by (simp add: handler_state_def method_not_allowed_def reply_def error_body_def)
qed

theorem relay_guards_witness:
  "handler_start None unreachable
       \<lparr> req_method = ''POST'', req_body = JObject [(''room'', JString ''room-1'')], req_query = [] \<rparr>
     = \<lparr> res_status = 400,
         res_body = JObject [(''error'', JString ''Both domain and room are required to invite Mandy.'')],
         res_allow = None, forwarded = [] \<rparr>
   \<and> handler_start (Some []) unreachable
       \<lparr> req_method = ''POST'',
         req_body = JObject [(''domain'', JString ''misfits''), (''room'', JString ''room-1'')],
         req_query = [] \<rparr>
     = \<lparr> res_status = 500,
         res_body = JObject [(''error'', JString ''MANDY_SERVICE_URL is not configured on the server.'')],
         res_allow = None, forwarded = [] \<rparr>
   \<and> handler_control None unreachable
       \<lparr> req_method = ''POST'', req_body = JObject [(''room'', JString ''room-1'')], req_query = [] \<rparr>
     = \<lparr> res_status = 500,
         res_body = JObject [(''error'', JString ''MANDY_SERVICE_URL is not configured on the server.'')],
         res_allow = None, forwarded = [] \<rparr>
   \<and> handler_control (Some ''http://localhost:8000'') unreachable
       \<lparr> req_method = ''POST'', req_body = JObject [(''room'', JString ''room-1'')], req_query = [] \<rparr>
     = \<lparr> res_status = 400,
         res_body = JObject [(''error'', JString ''Both domain and room are required to control Mandy.'')],
         res_allow = None, forwarded = [] \<rparr>
   \<and> handler_state id None unreachable
       \<lparr> req_method = ''GET'', req_body = JUndefined, req_query = [(''room'', QString ''room-1'')] \<rparr>
     = \<lparr> res_status = 500,
         res_body = JObject [(''error'', JString ''MANDY_SERVICE_URL is not configured on the server.'')],
         res_allow = None, forwarded = [] \<rparr>
   \<and> handler_state id (Some ''http://localhost:8000'') unreachable
       \<lparr> req_method = ''GET'', req_body = JUndefined, req_query = [(''room'', QString ''room-1'')] \<rparr>
     = \<lparr> res_status = 400,
         res_body = JObject [(''error'', JString ''Both domain and room must be provided as query parameters.'')],
         res_allow = None, forwarded = [] \<rparr>"
proof -
  let ?partial = "\<lparr> req_method = ''POST'', req_body = JObject [(''room'', JString ''room-1'')],
                    req_query = [] \<rparr>"
  let ?full = "\<lparr> req_method = ''POST'',
                 req_body = JObject [(''domain'', JString ''misfits''), (''room'', JString ''room-1'')],
                 req_query = [] \<rparr>"
  let ?get = "\<lparr> req_method = ''GET'', req_body = JUndefined,
                req_query = [(''room'', QString ''room-1'')] \<rparr>"
  have missing: "address_missing (JObject [(''room'', JString ''room-1'')])"
    "\<not> address_missing (JObject [(''domain'', JString ''misfits''), (''room'', JString ''room-1'')])"
    "query_address_missing [(''room'', QString ''room-1'')]"
    by (simp_all add: address_missing_def query_address_missing_def)
  have url: "service_url_missing None" "service_url_missing (Some [])"
    "\<not> service_url_missing (Some ''http://localhost:8000'')"
    by (simp_all add: service_url_missing_def)
  have "handler_start None unreachable ?partial
      = \<lparr> res_status = 400,
          res_body = JObject [(''error'', JString ''Both domain and room are required to invite Mandy.'')],
          res_allow = None, forwarded = [] \<rparr>"
    by (rule relay_guards [THEN conjunct1, THEN mp]) (simp add: missing)
  moreover have "handler_start (Some []) unreachable ?full
      = \<lparr> res_status = 500,
          res_body = JObject [(''error'', JString ''MANDY_SERVICE_URL is not configured on the server.'')],
          res_allow = None, forwarded = [] \<rparr>"
    by (rule relay_guards [THEN conjunct2, THEN conjunct1, THEN mp]) (simp add: missing url)
  moreover have "handler_control None unreachable ?partial
      = \<lparr> res_status = 500,
          res_body = JObject [(''error'', JString ''MANDY_SERVICE_URL is not configured on the server.'')],
          res_allow = None, forwarded = [] \<rparr>"
    by (rule relay_guards [THEN conjunct2, THEN conjunct2, THEN conjunct1, THEN mp])
       (simp add: url)
  moreover have "handler_control (Some ''http://localhost:8000'') unreachable ?partial
      = \<lparr> res_status = 400,
          res_body = JObject [(''error'', JString ''Both domain and room are required to control Mandy.'')],
          res_allow = None, forwarded = [] \<rparr>"
    by (rule relay_guards [THEN conjunct2, THEN conjunct2, THEN conjunct2, THEN conjunct1, THEN mp])
       (simp add: missing url)
  moreover have "handler_state id None unreachable ?get
      = \<lparr> res_status = 500,
          res_body = JObject [(''error'', JString ''MANDY_SERVICE_URL is not configured on the server.'')],
          res_allow = None, forwarded = [] \<rparr>"
    by (rule relay_guards [THEN conjunct2, THEN conjunct2, THEN conjunct2, THEN conjunct2,
          THEN conjunct1, THEN mp])
       (simp add: url)
  moreover have "handler_state id (Some ''http://localhost:8000'') unreachable ?get
      = \<lparr> res_status = 400,
          res_body = JObject [(''error'', JString ''Both domain and room must be provided as query parameters.'')],
          res_allow = None, forwarded = [] \<rparr>"
    by (rule relay_guards [THEN conjunct2, THEN conjunct2, THEN conjunct2, THEN conjunct2,
          THEN conjunct2, THEN conjunct1, THEN mp])
       (simp add: missing url)
  ultimately show ?thesis
    by (intro conjI)
qed

text \<open>
  C6, as stated: a missing room address gives 400, an unconfigured service address gives
  500. A POST with neither domain nor room, on a server without the service address,
  gets 500 from control (not 400) and 400 from start (not 500); the same request sent to
  start with GET gets 405.
\<close>

theorem relay_guards_counterexample:
  "address_missing (JObject []) \<and> service_url_missing None
   \<and> res_status (handler_control None unreachable
         \<lparr> req_method = ''POST'', req_body = JObject [], req_query = [] \<rparr>) = 500
   \<and> res_status (handler_start None unreachable
         \<lparr> req_method = ''POST'', req_body = JObject [], req_query = [] \<rparr>) = 400
   \<and> res_status (handler_start None unreachable
         \<lparr> req_method = ''GET'', req_body = JObject [], req_query = [] \<rparr>) = 405"
  by (simp add: address_missing_def service_url_missing_def handler_control_def
      handler_start_def not_configured_def method_not_allowed_def reply_def)

end
